theory Spec2Isabelle
  imports Main
begin

section \<open>JavaScript values used by the Emitter\<close>

text \<open>
  The option fields read by \<^verbatim>\<open>src/lib/Emitter.js\<close> (\<^verbatim>\<open>event\<close>, \<^verbatim>\<open>priority\<close>,
  \<^verbatim>\<open>delay\<close>, \<^verbatim>\<open>schedule\<close>) are dynamically typed. Numbers are the integer
  millisecond values the program computes with, \<open>JNaN\<close> is the number NaN; fractional
  and infinite numbers are outside the model. \<open>JDate None\<close> is a Date whose time
  value is NaN (an invalid date), \<open>JObject\<close> a plain object.
\<close>

datatype jsval =
    JUndefined
  | JNull
  | JBool bool
  | JNum int
  | JNaN
  | JStr string
  | JDate "int option"
  | JObject

text \<open>A thrown \<^verbatim>\<open>Error\<close>; \<open>message\<close> is \<open>None\<close> when \<^verbatim>\<open>e.message\<close> is undefined.\<close>

datatype js_error = JsError (message: "string option")

text \<open>
  An options object is a finite map from own property names to values;
  \<^verbatim>\<open>Object.assign({}, a, b)\<close> is \<open>a ++ b\<close> and \<^verbatim>\<open>o.hasOwnProperty(k)\<close> is
  \<open>o k \<noteq> None\<close>. Reading a property that is not there gives \<^verbatim>\<open>undefined\<close>.
\<close>

type_synonym options = "string \<rightharpoonup> jsval"

definition get_prop :: "options \<Rightarrow> string \<Rightarrow> jsval" where
  "get_prop opts k = (case opts k of None \<Rightarrow> JUndefined | Some v \<Rightarrow> v)"

text \<open>
  Functions of the host and of the \<^verbatim>\<open>ms\<close> package that the file calls but does not
  define: \<^verbatim>\<open>ms(string)\<close> (a number, \<^verbatim>\<open>undefined\<close>, or a throw), the conversion of
  a string to a number (\<open>None\<close> is NaN) and \<^verbatim>\<open>Date.prototype.toString\<close> of a valid
  time value.
\<close>

record host =
  ms :: "string \<Rightarrow> js_error + jsval"
  string_to_number :: "string \<Rightarrow> int option"
  date_to_string :: "int \<Rightarrow> string"

fun truthy :: "jsval \<Rightarrow> bool" where
  "truthy JUndefined = False"
| "truthy JNull = False"
| "truthy (JBool b) = b"
| "truthy (JNum n) = (n \<noteq> 0)"
| "truthy JNaN = False"
| "truthy (JStr s) = (s \<noteq> [])"
| "truthy (JDate t) = True"
| "truthy JObject = True"

text \<open>ToNumber; \<open>None\<close> is NaN.\<close>

fun to_number :: "host \<Rightarrow> jsval \<Rightarrow> int option" where
  "to_number h JUndefined = None"
| "to_number h JNull = Some 0"
| "to_number h (JBool b) = Some (if b then 1 else 0)"
| "to_number h (JNum n) = Some n"
| "to_number h JNaN = None"
| "to_number h (JStr s) = string_to_number h s"
| "to_number h (JDate t) = t"
| "to_number h JObject = None"

definition of_number :: "int option \<Rightarrow> jsval" where
  "of_number x = (case x of None \<Rightarrow> JNaN | Some n \<Rightarrow> JNum n)"

definition digit :: "nat \<Rightarrow> char" where
  "digit d = char_of (48 + d)"

fun show_nat :: "nat \<Rightarrow> string" where
  "show_nat n = (if n < 10 then [digit n] else show_nat (n div 10) @ [digit (n mod 10)])"

declare show_nat.simps [simp del]

definition show_int :: "int \<Rightarrow> string" where
  "show_int i = (if i < 0 then CHR ''-'' # show_nat (nat (- i)) else show_nat (nat i))"

text \<open>ToString, as a template literal applies it.\<close>

fun to_string :: "host \<Rightarrow> jsval \<Rightarrow> string" where
  "to_string h JUndefined = ''undefined''"
| "to_string h JNull = ''null''"
| "to_string h (JBool b) = (if b then ''true'' else ''false'')"
| "to_string h (JNum n) = show_int n"
| "to_string h JNaN = ''NaN''"
| "to_string h (JStr s) = s"
| "to_string h (JDate None) = ''Invalid Date''"
| "to_string h (JDate (Some t)) = date_to_string h t"
| "to_string h JObject = ''[object Object]''"

text \<open>\<^verbatim>\<open>isNaN(v)\<close>, \<^verbatim>\<open>+v\<close>, \<^verbatim>\<open>v instanceof Date\<close>.\<close>

definition js_isNaN :: "host \<Rightarrow> jsval \<Rightarrow> bool" where
  "js_isNaN h v = (to_number h v = None)"

definition unary_plus :: "host \<Rightarrow> jsval \<Rightarrow> jsval" where
  "unary_plus h v = of_number (to_number h v)"

fun instanceof_Date :: "jsval \<Rightarrow> bool" where
  "instanceof_Date (JDate t) = True"
| "instanceof_Date v = False"

fun typeof_string :: "jsval \<Rightarrow> bool" where
  "typeof_string (JStr s) = True"
| "typeof_string v = False"

text \<open>
  \<^verbatim>\<open>a < n\<close> and \<^verbatim>\<open>a > n\<close> against a number literal: the other operand is converted
  to a number, and a comparison with NaN is false.
\<close>

definition js_lt :: "host \<Rightarrow> jsval \<Rightarrow> int \<Rightarrow> bool" where
  "js_lt h v n = (case to_number h v of None \<Rightarrow> False | Some x \<Rightarrow> x < n)"

definition js_gt :: "host \<Rightarrow> jsval \<Rightarrow> int \<Rightarrow> bool" where
  "js_gt h v n = (case to_number h v of None \<Rightarrow> False | Some x \<Rightarrow> x > n)"

text \<open>\<^verbatim>\<open>a - b\<close> and \<^verbatim>\<open>a * b\<close> convert both operands to numbers; NaN propagates.\<close>

definition js_sub :: "host \<Rightarrow> jsval \<Rightarrow> jsval \<Rightarrow> jsval" where
  "js_sub h a b =
     (case (to_number h a, to_number h b) of
        (Some x, Some y) \<Rightarrow> JNum (x - y)
      | _ \<Rightarrow> JNaN)"

definition js_mul :: "host \<Rightarrow> jsval \<Rightarrow> jsval \<Rightarrow> jsval" where
  "js_mul h a b =
     (case (to_number h a, to_number h b) of
        (Some x, Some y) \<Rightarrow> JNum (x * y)
      | _ \<Rightarrow> JNaN)"

text \<open>
  \<^verbatim>\<open>a + b\<close>: a string, a Date or a plain object makes it a concatenation of the two
  string conversions, anything else a numeric addition.
\<close>

fun concatenates :: "jsval \<Rightarrow> bool" where
  "concatenates (JStr s) = True"
| "concatenates (JDate t) = True"
| "concatenates JObject = True"
| "concatenates v = False"

definition js_add :: "host \<Rightarrow> jsval \<Rightarrow> jsval \<Rightarrow> jsval" where
  "js_add h a b =
     (if concatenates a \<or> concatenates b then JStr (to_string h a @ to_string h b)
      else (case (to_number h a, to_number h b) of
              (Some x, Some y) \<Rightarrow> JNum (x + y)
            | _ \<Rightarrow> JNaN))"

section \<open>The emitter, its collaborators and what one send attempt does\<close>

text \<open>
  The fields of \<^verbatim>\<open>this\<close> that the methods read: \<^verbatim>\<open>this._remit._exchange\<close>,
  \<^verbatim>\<open>this._remit._options.name\<close> and \<^verbatim>\<open>this._options\<close> (the empty object when it
  has not been set: \<^verbatim>\<open>this._options || {}\<close>).
\<close>

record emitter =
  exchange :: string
  app_name :: string
  this_options :: options

type_synonym handle = nat

record queue_opts =
  exclusive :: bool
  durable :: bool
  autoDelete :: bool
  deadLetterExchange :: string
  deadLetterRoutingKey :: jsval
  messageTtl :: "jsval option"
  expires :: jsval

record headers =
  h_trace :: string
  h_context :: string
  h_scheduled :: "jsval option"
  h_delay :: "jsval option"

record message =
  mandatory :: bool
  messageId :: string
  appId :: string
  timestamp :: int
  headers :: headers
  persistent :: bool
  m_priority :: "jsval option"
  m_expiration :: "jsval option"

text \<open>
  The result of \<^verbatim>\<open>parseEvent(message, {routingKey}, JSON.parse(parsedData), {flowType})\<close>.
  \<^verbatim>\<open>parseEvent\<close> is not part of the file; its result is kept as the arguments it
  is given, the parsed body being represented by its JSON text.
\<close>

record sent_event =
  ev_message :: message
  ev_routingKey :: jsval
  ev_data :: string
  ev_flowType :: string

text \<open>What an attempt does to the world, in order.\<close>

datatype action =
    Warn
  | SpanStart string
  | SpanFinish
  | Acquire handle
  | Release handle
  | Destroy handle
  | AssertQueue handle string queue_opts
  | SendToQueue handle string string message
  | Publish handle string jsval string message
  | Yield
  | EmitSent sent_event

text \<open>
  What the collaborators answer during one attempt. Every call site of the file runs at
  most once per attempt, so one field per call site covers every behaviour of the
  environment: the clock, the identifier generator, the call-site capture, the injected
  trace carrier, the two \<^verbatim>\<open>acquire()\<close> calls (a rejection or a handle), the
  \<^verbatim>\<open>assertQueue\<close> call, the \<^verbatim>\<open>sendToQueue\<close>/\<^verbatim>\<open>publish\<close> call and the listeners of
  \<^verbatim>\<open>'sent'\<close> (\<open>Some e\<close>: the call throws \<open>e\<close>). The tracer, \<^verbatim>\<open>release\<close>, \<^verbatim>\<open>destroy\<close>,
  \<^verbatim>\<open>Buffer.from\<close> and \<^verbatim>\<open>parseEvent\<close> are taken not to throw.
\<close>

record env =
  now :: int
  uuid :: string
  callsite :: string
  carrier :: string
  setup_acquire :: "js_error + handle"
  assert_res :: "js_error option"
  send_acquire :: "js_error + handle"
  route_res :: "js_error option"
  sent_listener :: "js_error option"

text \<open>
  A payload, by what \<^verbatim>\<open>JSON.stringify\<close> does with it: \<^verbatim>\<open>undefined\<close>, a function and
  a symbol give \<^verbatim>\<open>undefined\<close>; \<open>PJson s\<close> is a value whose JSON text is \<open>s\<close>
  (\<^verbatim>\<open>null\<close> is \<open>PJson ''null''\<close>); \<open>PThrows e\<close> is a value on which it throws \<open>e\<close>
  (a circular structure, a BigInt, a throwing \<^verbatim>\<open>toJSON\<close>).
\<close>

datatype payload = PUndefined | PFunction | PSymbol | PJson string | PThrows js_error

fun JSON_stringify :: "payload \<Rightarrow> js_error + string option" where
  "JSON_stringify PUndefined = Inr None"
| "JSON_stringify PFunction = Inr None"
| "JSON_stringify PSymbol = Inr None"
| "JSON_stringify (PJson s) = Inr (Some s)"
| "JSON_stringify (PThrows e) = Inl e"

subsection \<open>\<^verbatim>\<open>_generateOptions\<close>\<close>

text \<open>The object \<^verbatim>\<open>parsedOpts\<close> that the method builds from \<^verbatim>\<open>opts.delay\<close>.\<close>

definition parsedOpts_of :: "host \<Rightarrow> options \<Rightarrow> js_error + options" where
  "parsedOpts_of h opts =
     (if opts ''delay'' \<noteq> None then
        (if typeof_string (get_prop opts ''delay'') then
           (case ms h (to_string h (get_prop opts ''delay'')) of
              Inl e \<Rightarrow> Inl e
            | Inr d \<Rightarrow> Inr [''delay'' \<mapsto> d, ''schedule'' \<mapsto> JNull])
         else if instanceof_Date (get_prop opts ''delay'') \<and> \<not> js_isNaN h (get_prop opts ''delay'') then
           Inr [''delay'' \<mapsto> JNull, ''schedule'' \<mapsto> get_prop opts ''delay'']
         else
           Inr [''delay'' \<mapsto> get_prop opts ''delay'', ''schedule'' \<mapsto> JNull])
      else Inr Map.empty)"

definition Emitter_generateOptions :: "host \<Rightarrow> emitter \<Rightarrow> options \<Rightarrow> js_error + options" where
  "Emitter_generateOptions h this opts =
     (case parsedOpts_of h opts of
        Inl e \<Rightarrow> Inl e
      | Inr parsedOpts \<Rightarrow> Inr (this_options this ++ opts ++ parsedOpts))"

subsection \<open>\<^verbatim>\<open>_setupDemitQueue\<close>\<close>

record demit_queue =
  queue :: string
  queue_expiration :: jsval

definition invalid_delay_error :: js_error where
  "invalid_delay_error =
     JsError (Some ''Invalid delay date or duration when attempting to send a delayed emission'')"

text \<open>The two guards at the head of the method, and the two values computed after them.\<close>

definition no_delay :: "host \<Rightarrow> options \<Rightarrow> bool" where
  "no_delay h opts = (js_isNaN h (get_prop opts ''delay'') \<and> \<not> truthy (get_prop opts ''schedule''))"

definition malformed_delay :: "host \<Rightarrow> options \<Rightarrow> bool" where
  "malformed_delay h opts =
     ((\<not> truthy (get_prop opts ''delay'') \<or> js_isNaN h (get_prop opts ''delay'')) \<and>
      (\<not> truthy (get_prop opts ''schedule'') \<or> \<not> instanceof_Date (get_prop opts ''schedule'') \<or>
       to_string h (get_prop opts ''schedule'') = ''Invalid Date''))"

definition group_of :: "host \<Rightarrow> options \<Rightarrow> jsval" where
  "group_of h opts =
     (if truthy (get_prop opts ''schedule'') then unary_plus h (get_prop opts ''schedule'')
      else get_prop opts ''delay'')"

definition expiration_of :: "host \<Rightarrow> options \<Rightarrow> int \<Rightarrow> jsval" where
  "expiration_of h opts time =
     (if truthy (get_prop opts ''schedule'')
      then js_sub h (unary_plus h (get_prop opts ''schedule'')) (JNum time)
      else get_prop opts ''delay'')"

definition queueOpts_of :: "host \<Rightarrow> emitter \<Rightarrow> options \<Rightarrow> jsval \<Rightarrow> queue_opts" where
  "queueOpts_of h this opts expiration =
     (let queueOpts =
        \<lparr> exclusive = False, durable = True, autoDelete = True,
          deadLetterExchange = exchange this,
          deadLetterRoutingKey = get_prop opts ''event'',
          messageTtl = None, expires = JUndefined \<rparr>
      in if truthy (get_prop opts ''delay'')
         then queueOpts \<lparr> messageTtl := Some expiration, expires := js_mul h expiration (JNum 2) \<rparr>
         else queueOpts \<lparr> expires := js_add h expiration (JNum 60000) \<rparr>)"

definition queue_name :: "host \<Rightarrow> string \<Rightarrow> jsval \<Rightarrow> jsval \<Rightarrow> string" where
  "queue_name h ex ev group_key =
     ''d:'' @ ex @ '':'' @ to_string h ev @ '':'' @ to_string h group_key"

definition inequivalent_x_expires :: string where
  "inequivalent_x_expires = ''inequivalent arg '' @ [CHR 0x27] @ ''x-expires'' @ [CHR 0x27]"

text \<open>\<^verbatim>\<open>e.message && e.message.substr(94, 28) === 'inequivalent arg \'x-expires\''\<close>\<close>

definition expires_conflict :: "js_error \<Rightarrow> bool" where
  "expires_conflict e =
     (case message e of
        None \<Rightarrow> False
      | Some m \<Rightarrow> m \<noteq> [] \<and> take 28 (drop 94 m) = inequivalent_x_expires)"

definition Emitter_setupDemitQueue ::
  "host \<Rightarrow> emitter \<Rightarrow> env \<Rightarrow> options \<Rightarrow> int \<Rightarrow> action list \<times> (js_error + demit_queue option)" where
  "Emitter_setupDemitQueue h this e opts time =
     (if no_delay h opts then ([], Inr None)
      else if malformed_delay h opts then ([], Inl invalid_delay_error)
      else
        let group_key = group_of h opts;
            expiration = expiration_of h opts time
        in if js_lt h expiration 1 then ([], Inr None)
           else
             let queueOpts = queueOpts_of h this opts expiration
             in (case setup_acquire e of
                   Inl err \<Rightarrow> ([], Inl err)
                 | Inr worker \<Rightarrow>
                     let q = queue_name h (exchange this) (get_prop opts ''event'') group_key;
                         dq = \<lparr> queue = q, queue_expiration = expiration \<rparr>
                     in (case assert_res e of
                           None \<Rightarrow>
                             ([Acquire worker, AssertQueue worker q queueOpts, Release worker],
                              Inr (Some dq))
                         | Some err \<Rightarrow>
                             ([Acquire worker, AssertQueue worker q queueOpts, Destroy worker],
                              if truthy (get_prop opts ''schedule'') \<and> expires_conflict err
                              then Inr (Some dq) else Inl err))))"

subsection \<open>\<^verbatim>\<open>_send\<close>\<close>

definition invalid_priority_error :: "host \<Rightarrow> jsval \<Rightarrow> js_error" where
  "invalid_priority_error h p =
     JsError (Some (''Invalid priority '' @ [CHR 0x22] @ to_string h p @ [CHR 0x22] @
                    '' when making request''))"

definition initial_message :: "emitter \<Rightarrow> env \<Rightarrow> message" where
  "initial_message this e =
     \<lparr> mandatory = False, messageId = uuid e, appId = app_name this, timestamp = now e,
       headers = \<lparr> h_trace = callsite e, h_context = carrier e,
                   h_scheduled = None, h_delay = None \<rparr>,
       persistent = True, m_priority = None, m_expiration = None \<rparr>"

text \<open>The statements inside \<^verbatim>\<open>try\<close>, from the routing call to \<^verbatim>\<open>return event\<close>.\<close>

definition route :: "host \<Rightarrow> emitter \<Rightarrow> env \<Rightarrow> options \<Rightarrow> message \<Rightarrow> string \<Rightarrow>
    demit_queue option \<Rightarrow> handle \<Rightarrow> action list \<times> (js_error + sent_event)" where
  "route h this e parsedOptions msg parsedData demitQueue worker =
     (let msg' =
        (case demitQueue of
           Some dq \<Rightarrow>
             (if truthy (get_prop parsedOptions ''schedule'')
              then msg \<lparr> headers := (headers msg)
                            \<lparr> h_scheduled := Some (unary_plus h (get_prop parsedOptions ''schedule'')) \<rparr>,
                         m_expiration := Some (queue_expiration dq) \<rparr>
              else msg \<lparr> headers := (headers msg) \<lparr> h_delay := Some (get_prop parsedOptions ''delay'') \<rparr> \<rparr>)
         | None \<Rightarrow> msg);
          call =
        (case demitQueue of
           Some dq \<Rightarrow> SendToQueue worker (queue dq) parsedData msg'
         | None \<Rightarrow> Publish worker (exchange this) (get_prop parsedOptions ''event'') parsedData msg')
      in (case route_res e of
            Some err \<Rightarrow> ([call, Destroy worker], Inl err)
          | None \<Rightarrow>
              let event = \<lparr> ev_message = msg', ev_routingKey = get_prop parsedOptions ''event'',
                            ev_data = parsedData, ev_flowType = ''exit'' \<rparr>
              in (case sent_listener e of
                    None \<Rightarrow>
                      ([call, Release worker, SpanFinish, Yield, EmitSent event], Inr event)
                  | Some err \<Rightarrow>
                      ([call, Release worker, SpanFinish, Yield, EmitSent event, Destroy worker],
                       Inl err))))"

text \<open>
  The statements of \<^verbatim>\<open>_send\<close> after the priority check: serialisation (with the
  warning when \<^verbatim>\<open>JSON.stringify\<close> gives \<^verbatim>\<open>undefined\<close>), the span, the delay
  queue, the acquisition and the routing.
\<close>

definition body_of :: "string option \<Rightarrow> string" where
  "body_of sd = (case sd of None \<Rightarrow> ''null'' | Some s \<Rightarrow> s)"

definition default_null :: "payload \<Rightarrow> payload" where
  "default_null data = (if data = PUndefined then PJson ''null'' else data)"

definition send_from_serialise :: "host \<Rightarrow> emitter \<Rightarrow> env \<Rightarrow> options \<Rightarrow> message \<Rightarrow> payload \<Rightarrow>
    action list \<times> (js_error + sent_event)" where
  "send_from_serialise h this e parsedOptions msg data =
     (case JSON_stringify data of
        Inl err \<Rightarrow> ([], Inl err)
      | Inr sd \<Rightarrow>
          let warned = (case sd of None \<Rightarrow> [Warn] | Some s \<Rightarrow> []);
              parsedData = body_of sd;
              pre = warned @
                [SpanStart (''Remit Emit: '' @ to_string h (get_prop parsedOptions ''event''))]
          in (case Emitter_setupDemitQueue h this e parsedOptions (now e) of
                (t1, Inl err) \<Rightarrow> (pre @ t1, Inl err)
              | (t1, Inr demitQueue) \<Rightarrow>
                  (case send_acquire e of
                     Inl err \<Rightarrow> (pre @ t1, Inl err)
                   | Inr worker \<Rightarrow>
                       (case route h this e parsedOptions msg parsedData demitQueue worker of
                          (t2, r) \<Rightarrow> (pre @ t1 @ [Acquire worker] @ t2, r)))))"

text \<open>
  \<^verbatim>\<open>_send(data = null, opts = {})\<close>: the default replaces an \<^verbatim>\<open>undefined\<close> payload
  by \<^verbatim>\<open>null\<close> before anything else runs.
\<close>

definition Emitter_send ::
  "host \<Rightarrow> emitter \<Rightarrow> env \<Rightarrow> payload \<Rightarrow> options \<Rightarrow> action list \<times> (js_error + sent_event)" where
  "Emitter_send h this e data0 opts =
     (let data = default_null data0
      in (case Emitter_generateOptions h this opts of
            Inl err \<Rightarrow> ([], Inl err)
          | Inr parsedOptions \<Rightarrow>
              let p = get_prop parsedOptions ''priority''
              in if truthy p then
                   (if js_gt h p 10 \<or> js_lt h p 0
                    then ([], Inl (invalid_priority_error h p))
                    else send_from_serialise h this e parsedOptions
                           ((initial_message this e) \<lparr> m_priority := Some p \<rparr>) data)
                 else send_from_serialise h this e parsedOptions (initial_message this e) data))"

section \<open>Notions used to state the properties\<close>

text \<open>
  The message as it stands after the priority step of \<^verbatim>\<open>_send\<close>, and the condition under
  which that step throws.
\<close>

definition priority_rejected :: "host \<Rightarrow> options \<Rightarrow> bool" where
  "priority_rejected h parsedOptions =
     (truthy (get_prop parsedOptions ''priority'') \<and>
      (js_gt h (get_prop parsedOptions ''priority'') 10 \<or>
       js_lt h (get_prop parsedOptions ''priority'') 0))"

definition envelope :: "emitter \<Rightarrow> env \<Rightarrow> options \<Rightarrow> message" where
  "envelope this e parsedOptions =
     (if truthy (get_prop parsedOptions ''priority'')
      then (initial_message this e) \<lparr> m_priority := Some (get_prop parsedOptions ''priority'') \<rparr>
      else initial_message this e)"

text \<open>Projections of a trace: the pool operations, the broker calls, the routed messages.\<close>

fun is_pool_action :: "action \<Rightarrow> bool" where
  "is_pool_action (Acquire w) = True"
| "is_pool_action (Release w) = True"
| "is_pool_action (Destroy w) = True"
| "is_pool_action a = False"

fun is_broker_call :: "action \<Rightarrow> bool" where
  "is_broker_call (AssertQueue w q qo) = True"
| "is_broker_call (SendToQueue w q b m) = True"
| "is_broker_call (Publish w x k b m) = True"
| "is_broker_call a = False"

definition pool_actions :: "action list \<Rightarrow> action list" where
  "pool_actions t = filter is_pool_action t"

definition broker_calls :: "action list \<Rightarrow> action list" where
  "broker_calls t = filter is_broker_call t"

fun routed :: "action list \<Rightarrow> (string \<times> message) list" where
  "routed [] = []"
| "routed (SendToQueue w q b m # t) = (b, m) # routed t"
| "routed (Publish w x k b m # t) = (b, m) # routed t"
| "routed (a # t) = routed t"

text \<open>
  The pool discipline of a whole attempt, read off its trace: a handle is acquired only
  while it is not held, released or destroyed only while it is held (which ends the
  holding), and nothing is held when the attempt is over.
\<close>

fun pool_discipline :: "handle list \<Rightarrow> action list \<Rightarrow> bool" where
  "pool_discipline held [] = (held = [])"
| "pool_discipline held (Acquire w # t) = (w \<notin> set held \<and> pool_discipline (w # held) t)"
| "pool_discipline held (Release w # t) = (w \<in> set held \<and> pool_discipline (removeAll w held) t)"
| "pool_discipline held (Destroy w # t) = (w \<in> set held \<and> pool_discipline (removeAll w held) t)"
| "pool_discipline held (a # t) = pool_discipline held t"

text \<open>Neither field set: \<^verbatim>\<open>null\<close> or \<^verbatim>\<open>undefined\<close>.\<close>

fun nullish :: "jsval \<Rightarrow> bool" where
  "nullish JUndefined = True"
| "nullish JNull = True"
| "nullish v = False"

definition mutually_exclusive :: "options \<Rightarrow> bool" where
  "mutually_exclusive parsedOptions =
     (nullish (get_prop parsedOptions ''delay'') \<or> nullish (get_prop parsedOptions ''schedule''))"

section \<open>Concrete inputs\<close>

text \<open>
  A host in which \<^verbatim>\<open>ms('5m')\<close> is 300000, \<^verbatim>\<open>ms('')\<close> throws and any other string is
  not a duration; no string is a number; a date prints as its time value.
\<close>

definition ms_example :: "string \<Rightarrow> js_error + jsval" where
  "ms_example s =
     (if s = ''5m'' then Inr (JNum 300000)
      else if s = [] then Inl (JsError (Some ''val is not a non-empty string or a valid number''))
      else Inr JUndefined)"

definition no_number :: "string \<Rightarrow> int option" where
  "no_number s = None"

definition date_example :: "int \<Rightarrow> string" where
  "date_example t = ''Date '' @ show_int t"

definition host_example :: host where
  "host_example =
     \<lparr> ms = ms_example, string_to_number = no_number, date_to_string = date_example \<rparr>"

definition emitter_example :: emitter where
  "emitter_example =
     \<lparr> exchange = ''remit'', app_name = ''svc'',
       this_options = [''event'' \<mapsto> JStr ''order.created''] \<rparr>"

text \<open>An environment in which nothing fails.\<close>

definition env_example :: env where
  "env_example =
     \<lparr> now = 1000, uuid = ''id-1'', callsite = ''caller.js:1'', carrier = ''span-1'',
       setup_acquire = Inr 1, assert_res = None, send_acquire = Inr 2, route_res = None,
       sent_listener = None \<rparr>"

text \<open>A declaration failure whose message carries the expiry conflict at offset 94.\<close>

definition conflict_error :: js_error where
  "conflict_error = JsError (Some (replicate 94 CHR ''.'' @ inequivalent_x_expires @ '' for queue''))"

definition boom :: js_error where
  "boom = JsError (Some ''boom'')"

text \<open>
  What \<^verbatim>\<open>_generateOptions\<close> makes of \<^verbatim>\<open>{delay: new Date(500)}\<close> over the stored
  options of the example emitter: a schedule half a second before the example clock.
\<close>

definition past_schedule_options :: options where
  "past_schedule_options =
     this_options emitter_example ++ [''delay'' \<mapsto> JDate (Some 500)] ++
       [''delay'' \<mapsto> JNull, ''schedule'' \<mapsto> JDate (Some 500)]"

text \<open>
  What \<^verbatim>\<open>_generateOptions\<close> makes of \<^verbatim>\<open>{delay: '5m'}\<close>, and of a delay given as a
  date ten seconds after the example clock, over the same stored options.
\<close>

definition five_minute_options :: options where
  "five_minute_options =
     this_options emitter_example ++ [''delay'' \<mapsto> JStr ''5m''] ++
       [''delay'' \<mapsto> JNum 300000, ''schedule'' \<mapsto> JNull]"

definition future_schedule_options :: options where
  "future_schedule_options =
     this_options emitter_example ++ [''delay'' \<mapsto> JDate (Some 11000)] ++
       [''delay'' \<mapsto> JNull, ''schedule'' \<mapsto> JDate (Some 11000)]"

text \<open>An environment in which the declaration of the queue fails with that conflict.\<close>

definition env_conflict :: env where
  "env_conflict = env_example \<lparr> assert_res := Some conflict_error \<rparr>"

text \<open>An environment in which a listener of \<^verbatim>\<open>'sent'\<close> throws.\<close>

definition env_listener_throws :: env where
  "env_listener_throws = env_example \<lparr> sent_listener := Some boom \<rparr>"

text \<open>
  Stored options after \<^verbatim>\<open>options({event: 'order.created', delay: 1000})\<close> on a fresh
  emitter, and an emitter holding them.
\<close>

definition delayed_options :: options where
  "delayed_options =
     Map.empty ++ [''event'' \<mapsto> JStr ''order.created'', ''delay'' \<mapsto> JNum 1000] ++
       [''delay'' \<mapsto> JNum 1000, ''schedule'' \<mapsto> JNull]"

definition emitter_delayed :: emitter where
  "emitter_delayed = \<lparr> exchange = ''remit'', app_name = ''svc'', this_options = delayed_options \<rparr>"

lemmas example_defs = host_example_def emitter_example_def env_example_def ms_example_def
  no_number_def date_example_def env_conflict_def env_listener_throws_def boom_def
  emitter_delayed_def

section \<open>The parts of \<^verbatim>\<open>_send\<close>\<close>

lemma send_unfold:
  assumes "Emitter_generateOptions h this opts = Inr po"
  shows "Emitter_send h this e data opts =
     (if priority_rejected h po then ([], Inl (invalid_priority_error h (get_prop po ''priority'')))
      else send_from_serialise h this e po (envelope this e po) (default_null data))"
  using assms by (simp add: Emitter_send_def priority_rejected_def envelope_def Let_def)

lemma setup_expired:
  assumes "\<not> no_delay h opts" and "\<not> malformed_delay h opts"
    and "js_lt h (expiration_of h opts time) 1"
  shows "Emitter_setupDemitQueue h this e opts time = ([], Inr None)"
  using assms by (simp add: Emitter_setupDemitQueue_def Let_def)

lemma route_direct:
  "broker_calls (fst (route h this e po msg body None w)) =
     [Publish w (exchange this) (get_prop po ''event'') body msg]"
  by (simp add: route_def broker_calls_def Let_def split: option.splits)

section \<open>Priority validation\<close>

text \<open>
  C3. A numeric priority below 0 or above 10 makes \<^verbatim>\<open>_send\<close> throw the
  ``Invalid priority'' error, and the attempt has done nothing by then: its trace is
  empty, so no handle was acquired and no queue was declared, no message published or
  routed.
\<close>

theorem priority_out_of_range_rejected:
  assumes "Emitter_generateOptions h this opts = Inr parsedOptions"
    and "get_prop parsedOptions ''priority'' = JNum n"
    and "n < 0 \<or> 10 < n"
  shows "Emitter_send h this e data opts = ([], Inl (invalid_priority_error h (JNum n)))"
  using assms by (auto simp: Emitter_send_def js_gt_def js_lt_def Let_def)

theorem priority_out_of_range_rejected_witness:
  "Emitter_send host_example emitter_example env_example (PJson ''{}'') [''priority'' \<mapsto> JNum 11]
     = ([], Inl (invalid_priority_error host_example (JNum 11)))"
  using priority_out_of_range_rejected [of host_example emitter_example
      "[''priority'' \<mapsto> JNum 11]"
      "this_options emitter_example ++ [''priority'' \<mapsto> JNum 11]" 11 env_example "PJson ''{}''"]
  by (simp add: Emitter_generateOptions_def parsedOpts_of_def get_prop_def)

section \<open>An expiration that is already due\<close>

text \<open>
  C6. When the resolver gets as far as computing the expiration (neither of its two
  leading guards fires) and the expiration is below 1, it returns \<^verbatim>\<open>false\<close> with an
  empty trace (nothing acquired, no queue declared), and a \<^verbatim>\<open>_send\<close> that reaches
  the routing step makes exactly one broker call: the publish to the origin exchange
  under the event as routing key.
\<close>

theorem expired_is_published_directly:
  assumes "Emitter_generateOptions h this opts = Inr po"
    and "\<not> no_delay h po" and "\<not> malformed_delay h po"
    and "js_lt h (expiration_of h po (now e)) 1"
  shows "Emitter_setupDemitQueue h this e po (now e) = ([], Inr None) \<and>
     (\<forall>w sd. \<not> priority_rejected h po \<and> JSON_stringify (default_null data) = Inr sd \<and>
         send_acquire e = Inr w \<longrightarrow>
       broker_calls (fst (Emitter_send h this e data opts)) =
         [Publish w (exchange this) (get_prop po ''event'') (body_of sd) (envelope this e po)])"
proof -
  have s: "Emitter_setupDemitQueue h this e po (now e) = ([], Inr None)"
    using assms(2-4) by (rule setup_expired)
  have "broker_calls (fst (Emitter_send h this e data opts)) =
         [Publish w (exchange this) (get_prop po ''event'') (body_of sd) (envelope this e po)]"
    if "\<not> priority_rejected h po" "JSON_stringify (default_null data) = Inr sd"
      "send_acquire e = Inr w" for w sd
  proof -
    have "fst (Emitter_send h this e data opts) =
        (case sd of None \<Rightarrow> [Warn] | Some s \<Rightarrow> []) @
        [SpanStart (''Remit Emit: '' @ to_string h (get_prop po ''event'')), Acquire w] @
        fst (route h this e po (envelope this e po) (body_of sd) None w)"
      using that s by (simp add: send_unfold [OF assms(1)] send_from_serialise_def Let_def
          split: prod.splits)
    then show ?thesis
      using route_direct [of h this e po "envelope this e po" "body_of sd" w]
      by (simp add: broker_calls_def split: option.splits)
  qed
  with s show ?thesis by blast
qed

theorem expired_is_published_directly_witness:
  "Emitter_setupDemitQueue host_example emitter_example env_example past_schedule_options 1000
      = ([], Inr None) \<and>
   broker_calls (fst (Emitter_send host_example emitter_example env_example (PJson ''{}'')
        [''delay'' \<mapsto> JDate (Some 500)])) =
     [Publish 2 ''remit'' (JStr ''order.created'') ''{}''
        (envelope emitter_example env_example past_schedule_options)]"
proof -
  have g: "Emitter_generateOptions host_example emitter_example [''delay'' \<mapsto> JDate (Some 500)]
      = Inr past_schedule_options"
    by (simp add: Emitter_generateOptions_def parsedOpts_of_def past_schedule_options_def
        get_prop_def js_isNaN_def)
  have a: "\<not> no_delay host_example past_schedule_options"
    by (simp add: no_delay_def past_schedule_options_def get_prop_def js_isNaN_def)
  have b: "\<not> malformed_delay host_example past_schedule_options"
    by (simp add: malformed_delay_def past_schedule_options_def get_prop_def js_isNaN_def
        example_defs)
  have c: "js_lt host_example (expiration_of host_example past_schedule_options (now env_example)) 1"
    by (simp add: expiration_of_def past_schedule_options_def get_prop_def js_lt_def js_sub_def
        unary_plus_def of_number_def env_example_def)
  have d: "\<not> priority_rejected host_example past_schedule_options"
    by (simp add: priority_rejected_def past_schedule_options_def get_prop_def emitter_example_def)
  have ev: "get_prop past_schedule_options ''event'' = JStr ''order.created''"
    by (simp add: past_schedule_options_def get_prop_def emitter_example_def)
  show ?thesis
    using expired_is_published_directly [OF g a b c, of "PJson ''{}''"] d ev
    by (simp add: default_null_def body_of_def env_example_def emitter_example_def)
qed

section \<open>Decimal notation is injective\<close>

lemma digit_values:
  "digit 0 = CHR ''0''" "digit 1 = CHR ''1''" "digit 2 = CHR ''2''" "digit 3 = CHR ''3''"
  "digit 4 = CHR ''4''" "digit 5 = CHR ''5''" "digit 6 = CHR ''6''" "digit 7 = CHR ''7''"
  "digit 8 = CHR ''8''" "digit 9 = CHR ''9''" "digit (Suc 0) = CHR ''1''"
  unfolding digit_def by code_simp+

lemmas show_int_eval = show_int_def show_nat.simps digit_values

lemma of_char_digit: "of_char (digit d) = 48 + d" if "d < 10"
  using that by (simp add: digit_def)

lemma show_nat_nonempty: "show_nat n \<noteq> []"
  by (subst show_nat.simps) simp

lemma digit_inj: "a < 10 \<Longrightarrow> b < 10 \<Longrightarrow> digit a = digit b \<Longrightarrow> a = b"
proof -
  assume a: "a < 10" and b: "b < 10" and eq: "digit a = digit b"
  have "(of_char (digit a) :: nat) = of_char (digit b)" using eq by simp
  then show "a = b" using a b by (simp add: of_char_digit)
qed

lemma show_nat_inj: "show_nat n = show_nat m \<Longrightarrow> n = m"
proof (induction n arbitrary: m rule: show_nat.induct)
  case (1 n)
  show ?case
  proof (cases "n < 10")
    case n: True
    show ?thesis
    proof (cases "m < 10")
      case True
      with n "1.prems" show ?thesis
        by (simp add: show_nat.simps [of n] show_nat.simps [of m] digit_inj)
    next
      case False
      with n "1.prems" show ?thesis
        using show_nat_nonempty [of "m div 10"]
        by (simp add: show_nat.simps [of n] show_nat.simps [of m])
    qed
  next
    case n: False
    show ?thesis
    proof (cases "m < 10")
      case True
      with n "1.prems" show ?thesis
        using show_nat_nonempty [of "n div 10"]
        by (simp add: show_nat.simps [of n] show_nat.simps [of m])
    next
      case False
      with n "1.prems" have eq: "show_nat (n div 10) = show_nat (m div 10)"
        and d: "digit (n mod 10) = digit (m mod 10)"
        by (simp_all add: show_nat.simps [of n] show_nat.simps [of m])
      from "1.IH" [OF n eq] have "n div 10 = m div 10" .
      moreover from d have "n mod 10 = m mod 10" by (simp add: digit_inj)
      ultimately show ?thesis by (metis div_mult_mod_eq)
    qed
  qed
qed

lemma show_nat_digits: "c \<in> set (show_nat n) \<Longrightarrow> \<exists>d<10. c = digit d"
proof (induction n rule: show_nat.induct)
  case (1 n)
  show ?case
  proof (cases "n < 10")
    case True
    with "1.prems" show ?thesis by (auto simp: show_nat.simps [of n])
  next
    case False
    with "1.prems" have "c \<in> set (show_nat (n div 10)) \<or> c = digit (n mod 10)"
      by (auto simp: show_nat.simps [of n])
    then show ?thesis
    proof
      assume "c \<in> set (show_nat (n div 10))"
      with "1.IH" [OF False] show ?thesis .
    next
      assume "c = digit (n mod 10)"
      moreover have "n mod 10 < 10" by simp
      ultimately show ?thesis by blast
    qed
  qed
qed

lemma show_nat_no_minus: "show_nat n \<noteq> CHR ''-'' # s"
proof
  assume "show_nat n = CHR ''-'' # s"
  then have "CHR ''-'' \<in> set (show_nat n)" by simp
  then obtain d where "d < 10" "CHR ''-'' = digit d" using show_nat_digits by blast
  then have "(of_char (CHR ''-'') :: nat) = 48 + d" by (simp add: of_char_digit)
  then show False by simp
qed

lemma show_int_inj: "show_int a = show_int b \<Longrightarrow> a = b"
proof -
  assume eq: "show_int a = show_int b"
  show "a = b"
  proof (cases "a < 0")
    case a: True
    show ?thesis
    proof (cases "b < 0")
      case True
      with a eq have "show_nat (nat (- a)) = show_nat (nat (- b))" by (simp add: show_int_def)
      then have "nat (- a) = nat (- b)" by (rule show_nat_inj)
      with a True show ?thesis by simp
    next
      case False
      with a eq have "show_nat (nat b) = CHR ''-'' # show_nat (nat (- a))"
        by (simp add: show_int_def)
      with show_nat_no_minus show ?thesis by blast
    qed
  next
    case a: False
    show ?thesis
    proof (cases "b < 0")
      case True
      with a eq have "show_nat (nat a) = CHR ''-'' # show_nat (nat (- b))"
        by (simp add: show_int_def)
      with show_nat_no_minus show ?thesis by blast
    next
      case False
      with a eq have "show_nat (nat a) = show_nat (nat b)" by (simp add: show_int_def)
      then have "nat a = nat b" by (rule show_nat_inj)
      with a False show ?thesis by simp
    qed
  qed
qed

section \<open>The declaration of the auxiliary queue\<close>

lemma setup_declares:
  assumes "\<not> no_delay h opts" and "\<not> malformed_delay h opts"
    and "\<not> js_lt h (expiration_of h opts time) 1"
    and "setup_acquire e = Inr w"
  shows "Emitter_setupDemitQueue h this e opts time =
     ([Acquire w,
       AssertQueue w (queue_name h (exchange this) (get_prop opts ''event'') (group_of h opts))
         (queueOpts_of h this opts (expiration_of h opts time)),
       (case assert_res e of None \<Rightarrow> Release w | Some err \<Rightarrow> Destroy w)],
      (case assert_res e of
         None \<Rightarrow> Inr (Some \<lparr> queue = queue_name h (exchange this) (get_prop opts ''event'') (group_of h opts),
                               queue_expiration = expiration_of h opts time \<rparr>)
       | Some err \<Rightarrow>
           if truthy (get_prop opts ''schedule'') \<and> expires_conflict err
           then Inr (Some \<lparr> queue = queue_name h (exchange this) (get_prop opts ''event'') (group_of h opts),
                               queue_expiration = expiration_of h opts time \<rparr>)
           else Inl err))"
  using assms by (simp add: Emitter_setupDemitQueue_def Let_def split: option.splits)

lemma schedule_path_expiration:
  assumes "\<not> malformed_delay h opts" and "\<not> truthy (get_prop opts ''delay'')"
  shows "\<exists>t. get_prop opts ''schedule'' = JDate (Some t) \<and>
             expiration_of h opts time = JNum (t - time)"
proof -
  from assms have s: "truthy (get_prop opts ''schedule'')"
    "instanceof_Date (get_prop opts ''schedule'')"
    "to_string h (get_prop opts ''schedule'') \<noteq> ''Invalid Date''"
    by (auto simp: malformed_delay_def)
  then obtain d where d: "get_prop opts ''schedule'' = JDate d"
    by (cases "get_prop opts ''schedule''") auto
  with s(3) obtain t where "get_prop opts ''schedule'' = JDate (Some t)"
    by (cases d) auto
  then show ?thesis
    by (simp add: expiration_of_def unary_plus_def of_number_def js_sub_def)
qed

text \<open>
  C7, as stated, does not hold when a delay and a schedule are both set. An emitter whose
  stored options carry the delay 1000 is given \<^verbatim>\<open>{schedule: new Date(5000)}\<close> at
  clock 1000. The send is a scheduled one: the queue is named after the time value 5000,
  the expiration is 4000 and the message carries \<^verbatim>\<open>headers.scheduled\<close> and the
  expiration. The declaration parameters are nevertheless chosen by \<^verbatim>\<open>opts.delay\<close>:
  the queue is declared with \<^verbatim>\<open>messageTtl = 4000\<close> and \<^verbatim>\<open>expires = 8000\<close>, not without
  a message TTL and with \<^verbatim>\<open>expires = 64000\<close>.
\<close>

theorem scheduled_send_declared_with_ttl:
  "Emitter_generateOptions host_example emitter_delayed [''schedule'' \<mapsto> JDate (Some 5000)]
     = Inr (delayed_options ++ [''schedule'' \<mapsto> JDate (Some 5000)]) \<and>
   truthy (get_prop (delayed_options ++ [''schedule'' \<mapsto> JDate (Some 5000)]) ''schedule'') \<and>
   broker_calls (fst (Emitter_send host_example emitter_delayed env_example (PJson ''{}'')
       [''schedule'' \<mapsto> JDate (Some 5000)])) =
     [AssertQueue 1 ''d:remit:order.created:5000''
        \<lparr> exclusive = False, durable = True, autoDelete = True,
          deadLetterExchange = ''remit'', deadLetterRoutingKey = JStr ''order.created'',
          messageTtl = Some (JNum 4000), expires = JNum 8000 \<rparr>,
      SendToQueue 2 ''d:remit:order.created:5000'' ''{}''
        ((initial_message emitter_delayed env_example)
           \<lparr> headers := (headers (initial_message emitter_delayed env_example))
                          \<lparr> h_scheduled := Some (JNum 5000) \<rparr>,
             m_expiration := Some (JNum 4000) \<rparr>)]"
  by (simp add: Emitter_send_def Emitter_generateOptions_def parsedOpts_of_def get_prop_def
      send_from_serialise_def Emitter_setupDemitQueue_def no_delay_def malformed_delay_def
      group_of_def expiration_of_def queueOpts_of_def queue_name_def js_isNaN_def js_lt_def
      js_sub_def js_mul_def unary_plus_def of_number_def route_def default_null_def body_of_def
      broker_calls_def delayed_options_def Let_def example_defs show_int_eval)

text \<open>
  C7, amended. When the resolver declares the auxiliary queue, the declaration parameters
  dead-letter to the origin exchange with the event as routing key (non-exclusive,
  durable, auto-deleting), and the rest is chosen by the delay alone. With a truthy
  delay, a schedule being set or not, the message TTL is the expiration and the queue
  expiry is twice the expiration; with a falsy delay (the schedule is then a valid Date)
  no message TTL is set and the queue expiry is the expiration plus 60000. The instance
  of \<^verbatim>\<open>{delay: '5m'}\<close> declares \<^verbatim>\<open>messageTtl = 300000\<close> and \<^verbatim>\<open>expires = 600000\<close>.
\<close>

theorem declaration_parameters:
  assumes "\<not> no_delay h opts" and "\<not> malformed_delay h opts"
    and "\<not> js_lt h (expiration_of h opts time) 1"
    and "setup_acquire e = Inr w"
  shows "\<exists>qo. broker_calls (fst (Emitter_setupDemitQueue h this e opts time)) =
           [AssertQueue w (queue_name h (exchange this) (get_prop opts ''event'') (group_of h opts)) qo] \<and>
         deadLetterExchange qo = exchange this \<and>
         deadLetterRoutingKey qo = get_prop opts ''event'' \<and>
         \<not> exclusive qo \<and> durable qo \<and> autoDelete qo \<and>
         (truthy (get_prop opts ''delay'') \<longrightarrow>
            messageTtl qo = Some (expiration_of h opts time) \<and>
            (\<forall>n. to_number h (expiration_of h opts time) = Some n \<longrightarrow> expires qo = JNum (2 * n))) \<and>
         (\<not> truthy (get_prop opts ''delay'') \<longrightarrow>
            messageTtl qo = None \<and>
            (\<exists>n. expiration_of h opts time = JNum n \<and> expires qo = JNum (n + 60000)))"
proof -
  let ?x = "expiration_of h opts time"
  let ?qo = "queueOpts_of h this opts ?x"
  have calls: "broker_calls (fst (Emitter_setupDemitQueue h this e opts time)) =
      [AssertQueue w (queue_name h (exchange this) (get_prop opts ''event'') (group_of h opts)) ?qo]"
    by (simp add: setup_declares [OF assms] broker_calls_def split: option.splits)
  have fixed: "deadLetterExchange ?qo = exchange this \<and>
      deadLetterRoutingKey ?qo = get_prop opts ''event'' \<and>
      \<not> exclusive ?qo \<and> durable ?qo \<and> autoDelete ?qo"
    by (simp add: queueOpts_of_def Let_def)
  have delaying: "messageTtl ?qo = Some ?x \<and>
      (\<forall>n. to_number h ?x = Some n \<longrightarrow> expires ?qo = JNum (2 * n))"
    if "truthy (get_prop opts ''delay'')"
    using that by (simp add: queueOpts_of_def Let_def js_mul_def)
  have scheduling: "messageTtl ?qo = None \<and> (\<exists>n. ?x = JNum n \<and> expires ?qo = JNum (n + 60000))"
    if d: "\<not> truthy (get_prop opts ''delay'')"
  proof -
    from schedule_path_expiration [OF assms(2) d, of time]
    obtain t where "?x = JNum (t - time)" by blast
    with d show ?thesis by (simp add: queueOpts_of_def Let_def js_add_def)
  qed
  from calls fixed delaying scheduling show ?thesis by blast
qed


theorem declaration_parameters_witness:
  "broker_calls (fst (Emitter_setupDemitQueue host_example emitter_example env_example
       five_minute_options 1000)) =
     [AssertQueue 1 ''d:remit:order.created:300000''
        \<lparr> exclusive = False, durable = True, autoDelete = True,
          deadLetterExchange = ''remit'', deadLetterRoutingKey = JStr ''order.created'',
          messageTtl = Some (JNum 300000), expires = JNum 600000 \<rparr>]"
proof -
  have a: "\<not> no_delay host_example five_minute_options"
    by (simp add: no_delay_def five_minute_options_def get_prop_def js_isNaN_def)
  have b: "\<not> malformed_delay host_example five_minute_options"
    by (simp add: malformed_delay_def five_minute_options_def get_prop_def js_isNaN_def)
  have c: "\<not> js_lt host_example (expiration_of host_example five_minute_options 1000) 1"
    by (simp add: expiration_of_def five_minute_options_def get_prop_def js_lt_def)
  have d: "setup_acquire env_example = Inr 1"
    by (simp add: env_example_def)
  have x: "expiration_of host_example five_minute_options 1000 = JNum 300000"
    by (simp add: expiration_of_def five_minute_options_def get_prop_def)
  have q: "queue_name host_example (exchange emitter_example)
      (get_prop five_minute_options ''event'') (group_of host_example five_minute_options)
      = ''d:remit:order.created:300000''"
    by (simp add: queue_name_def group_of_def five_minute_options_def get_prop_def
        emitter_example_def show_int_eval)
  have t: "truthy (get_prop five_minute_options ''delay'')"
    by (simp add: five_minute_options_def get_prop_def)
  have ev: "get_prop five_minute_options ''event'' = JStr ''order.created''"
    by (simp add: five_minute_options_def get_prop_def emitter_example_def)
  from declaration_parameters [OF a b c d, of emitter_example]
  obtain qo where calls: "broker_calls (fst (Emitter_setupDemitQueue host_example emitter_example
        env_example five_minute_options 1000)) = [AssertQueue 1 ''d:remit:order.created:300000'' qo]"
    and f: "deadLetterExchange qo = ''remit''" "deadLetterRoutingKey qo = JStr ''order.created''"
      "\<not> exclusive qo" "durable qo" "autoDelete qo"
      "messageTtl qo = Some (JNum 300000)" "expires qo = JNum 600000"
    using q t x ev by (auto simp: emitter_example_def)
  from f have "qo = \<lparr> exclusive = False, durable = True, autoDelete = True,
          deadLetterExchange = ''remit'', deadLetterRoutingKey = JStr ''order.created'',
          messageTtl = Some (JNum 300000), expires = JNum 600000 \<rparr>"
    by (cases qo) simp
  with calls show ?thesis by simp
qed

section \<open>A failing declaration\<close>

lemma send_setup_fails:
  assumes "Emitter_generateOptions h this opts = Inr po"
    and "\<not> priority_rejected h po"
    and "JSON_stringify (default_null data) = Inr sd"
    and "Emitter_setupDemitQueue h this e po (now e) = (t1, Inl err)"
  shows "Emitter_send h this e data opts =
     ((case sd of None \<Rightarrow> [Warn] | Some s \<Rightarrow> []) @
      [SpanStart (''Remit Emit: '' @ to_string h (get_prop po ''event''))] @ t1, Inl err)"
  using assms by (simp add: send_unfold send_from_serialise_def Let_def)

text \<open>
  C8. When \<^verbatim>\<open>assertQueue\<close> fails with \<open>err\<close>, the handle is destroyed, and the resolver
  returns the descriptor as computed (queue name and expiration) exactly when the schedule
  is truthy and the message of \<open>err\<close> reads \<^verbatim>\<open>inequivalent arg 'x-expires'\<close> at offset
  94; in every other case, the same conflict without a schedule included, it throws
  \<open>err\<close>, and so does \<^verbatim>\<open>_send\<close>, which then routes nothing.
\<close>

theorem declaration_failure:
  assumes "\<not> no_delay h opts" and "\<not> malformed_delay h opts"
    and "\<not> js_lt h (expiration_of h opts time) 1"
    and "setup_acquire e = Inr w"
    and "assert_res e = Some err"
  shows "snd (Emitter_setupDemitQueue h this e opts time) =
     (if truthy (get_prop opts ''schedule'') \<and> expires_conflict err
      then Inr (Some \<lparr> queue = queue_name h (exchange this) (get_prop opts ''event'') (group_of h opts),
                         queue_expiration = expiration_of h opts time \<rparr>)
      else Inl err) \<and>
     pool_actions (fst (Emitter_setupDemitQueue h this e opts time)) = [Acquire w, Destroy w] \<and>
     (\<forall>input data sd.
        Emitter_generateOptions h this input = Inr opts \<and> time = now e \<and>
        \<not> priority_rejected h opts \<and> JSON_stringify (default_null data) = Inr sd \<and>
        \<not> (truthy (get_prop opts ''schedule'') \<and> expires_conflict err) \<longrightarrow>
        snd (Emitter_send h this e data input) = Inl err \<and>
        routed (fst (Emitter_send h this e data input)) = [])"
proof -
  note s = setup_declares [OF assms(1-4), of this]
  have r: "snd (Emitter_setupDemitQueue h this e opts time) =
     (if truthy (get_prop opts ''schedule'') \<and> expires_conflict err
      then Inr (Some \<lparr> queue = queue_name h (exchange this) (get_prop opts ''event'') (group_of h opts),
                         queue_expiration = expiration_of h opts time \<rparr>)
      else Inl err)"
    by (simp add: s assms(5))
  have p: "pool_actions (fst (Emitter_setupDemitQueue h this e opts time)) = [Acquire w, Destroy w]"
    by (simp add: s assms(5) pool_actions_def)
  have f: "snd (Emitter_send h this e data input) = Inl err \<and>
        routed (fst (Emitter_send h this e data input)) = []"
    if "Emitter_generateOptions h this input = Inr opts" "time = now e"
      "\<not> priority_rejected h opts" "JSON_stringify (default_null data) = Inr sd"
      "\<not> (truthy (get_prop opts ''schedule'') \<and> expires_conflict err)"
    for input data sd
  proof -
    have "Emitter_setupDemitQueue h this e opts (now e) =
        (fst (Emitter_setupDemitQueue h this e opts time), Inl err)"
      using r that(2,5) by (metis prod.collapse)
    from send_setup_fails [OF that(1) that(3) that(4) this]
    show ?thesis by (simp add: s assms(5) split: option.splits)
  qed
  from r p f show ?thesis by blast
qed

theorem declaration_failure_witness:
  "snd (Emitter_setupDemitQueue host_example emitter_example env_conflict future_schedule_options 1000)
     = Inr (Some \<lparr> queue = ''d:remit:order.created:11000'', queue_expiration = JNum 10000 \<rparr>) \<and>
   snd (Emitter_send host_example emitter_example env_conflict (PJson ''{}'') [''delay'' \<mapsto> JStr ''5m''])
     = Inl conflict_error"
proof -
  have c: "expires_conflict conflict_error"
    by (simp add: expires_conflict_def conflict_error_def inequivalent_x_expires_def)
  have e4: "setup_acquire env_conflict = Inr 1" and e5: "assert_res env_conflict = Some conflict_error"
    and n: "now env_conflict = 1000"
    by (simp_all add: env_conflict_def env_example_def)
  have a1: "\<not> no_delay host_example future_schedule_options"
    by (simp add: no_delay_def future_schedule_options_def get_prop_def js_isNaN_def)
  have b1: "\<not> malformed_delay host_example future_schedule_options"
    by (simp add: malformed_delay_def future_schedule_options_def get_prop_def js_isNaN_def
        example_defs)
  have c1: "\<not> js_lt host_example (expiration_of host_example future_schedule_options 1000) 1"
    by (simp add: expiration_of_def future_schedule_options_def get_prop_def js_lt_def js_sub_def
        unary_plus_def of_number_def)
  have q1: "queue_name host_example (exchange emitter_example)
      (get_prop future_schedule_options ''event'') (group_of host_example future_schedule_options)
      = ''d:remit:order.created:11000''"
    by (simp add: queue_name_def group_of_def future_schedule_options_def get_prop_def
        emitter_example_def show_int_eval unary_plus_def of_number_def)
  have x1: "expiration_of host_example future_schedule_options 1000 = JNum 10000"
    by (simp add: expiration_of_def future_schedule_options_def get_prop_def js_sub_def
        unary_plus_def of_number_def)
  have t1: "truthy (get_prop future_schedule_options ''schedule'')"
    by (simp add: future_schedule_options_def get_prop_def)
  have first: "snd (Emitter_setupDemitQueue host_example emitter_example env_conflict
      future_schedule_options 1000)
     = Inr (Some \<lparr> queue = ''d:remit:order.created:11000'', queue_expiration = JNum 10000 \<rparr>)"
    using declaration_failure [OF a1 b1 c1 e4 e5, of emitter_example] c q1 x1 t1 by simp
  have a2: "\<not> no_delay host_example five_minute_options"
    by (simp add: no_delay_def five_minute_options_def get_prop_def js_isNaN_def)
  have b2: "\<not> malformed_delay host_example five_minute_options"
    by (simp add: malformed_delay_def five_minute_options_def get_prop_def js_isNaN_def)
  have c2: "\<not> js_lt host_example (expiration_of host_example five_minute_options 1000) 1"
    by (simp add: expiration_of_def five_minute_options_def get_prop_def js_lt_def)
  have g2: "Emitter_generateOptions host_example emitter_example [''delay'' \<mapsto> JStr ''5m'']
      = Inr five_minute_options"
    by (simp add: Emitter_generateOptions_def parsedOpts_of_def five_minute_options_def
        get_prop_def host_example_def ms_example_def)
  have p2: "\<not> priority_rejected host_example five_minute_options"
    by (simp add: priority_rejected_def five_minute_options_def get_prop_def emitter_example_def)
  have t2: "\<not> truthy (get_prop five_minute_options ''schedule'')"
    by (simp add: five_minute_options_def get_prop_def)
  have second: "snd (Emitter_send host_example emitter_example env_conflict (PJson ''{}'')
      [''delay'' \<mapsto> JStr ''5m'']) = Inl conflict_error"
    using declaration_failure [OF a2 b2 c2 e4 e5, of emitter_example] g2 p2 t2 n
    by (simp add: default_null_def)
  from first second show ?thesis by simp
qed

section \<open>The name of the auxiliary queue\<close>

lemma setup_descriptor_queue:
  assumes "snd (Emitter_setupDemitQueue h this e opts time) = Inr (Some d)"
  shows "queue d = queue_name h (exchange this) (get_prop opts ''event'') (group_of h opts)"
  using assms
  by (auto simp: Emitter_setupDemitQueue_def Let_def split: if_splits sum.splits option.splits)

lemma queue_name_timestamps:
  assumes "t1 \<noteq> t2"
  shows "queue_name h ex ev (JNum t1) \<noteq> queue_name h ex ev (JNum t2)"
  using assms show_int_inj by (auto simp: queue_name_def)

text \<open>
  C5. Every descriptor the resolver returns carries the queue name computed from the
  exchange, the event and the group key alone (the time value of the schedule when there
  is one, the delay otherwise), whatever the clock and the environment. So two
  resolutions on the same emitter with the same event and the same delay, without
  schedule, give the same name, and two with the same event and schedules at distinct
  time values give distinct names.
\<close>

theorem queue_name_by_group:
  assumes "snd (Emitter_setupDemitQueue h this e1 o1 time1) = Inr (Some d1)"
    and "snd (Emitter_setupDemitQueue h this e2 o2 time2) = Inr (Some d2)"
    and "get_prop o1 ''event'' = get_prop o2 ''event''"
  shows "queue d1 = queue_name h (exchange this) (get_prop o1 ''event'') (group_of h o1) \<and>
     (\<not> truthy (get_prop o1 ''schedule'') \<and> \<not> truthy (get_prop o2 ''schedule'') \<and>
      get_prop o1 ''delay'' = get_prop o2 ''delay'' \<longrightarrow> queue d1 = queue d2) \<and>
     (\<forall>t1 t2. get_prop o1 ''schedule'' = JDate (Some t1) \<and>
        get_prop o2 ''schedule'' = JDate (Some t2) \<and> t1 \<noteq> t2 \<longrightarrow> queue d1 \<noteq> queue d2)"
proof -
  note q1 = setup_descriptor_queue [OF assms(1)]
  note q2 = setup_descriptor_queue [OF assms(2)]
  have same: "queue d1 = queue d2"
    if "\<not> truthy (get_prop o1 ''schedule'')" "\<not> truthy (get_prop o2 ''schedule'')"
      "get_prop o1 ''delay'' = get_prop o2 ''delay''"
    using that q1 q2 assms(3) by (simp add: group_of_def)
  have differ: "queue d1 \<noteq> queue d2"
    if "get_prop o1 ''schedule'' = JDate (Some t1)" "get_prop o2 ''schedule'' = JDate (Some t2)"
      "t1 \<noteq> t2" for t1 t2
    using that q1 q2 assms(3) queue_name_timestamps [of t1 t2]
    by (simp add: group_of_def unary_plus_def of_number_def)
  from q1 same differ show ?thesis by blast
qed

theorem queue_name_by_group_witness:
  "snd (Emitter_setupDemitQueue host_example emitter_example env_example five_minute_options 1000) =
     Inr (Some \<lparr> queue = ''d:remit:order.created:300000'', queue_expiration = JNum 300000 \<rparr>) \<and>
   snd (Emitter_setupDemitQueue host_example emitter_example env_example five_minute_options 2000) =
     Inr (Some \<lparr> queue = ''d:remit:order.created:300000'', queue_expiration = JNum 300000 \<rparr>) \<and>
   snd (Emitter_setupDemitQueue host_example emitter_example env_example
          future_schedule_options 1000) =
     Inr (Some \<lparr> queue = ''d:remit:order.created:11000'', queue_expiration = JNum 10000 \<rparr>) \<and>
   snd (Emitter_setupDemitQueue host_example emitter_example env_example
          (future_schedule_options(''schedule'' \<mapsto> JDate (Some 12000))) 2000) =
     Inr (Some \<lparr> queue = ''d:remit:order.created:12000'', queue_expiration = JNum 10000 \<rparr>) \<and>
   queue \<lparr> queue = ''d:remit:order.created:300000'', queue_expiration = JNum 300000 \<rparr> =
     queue_name host_example ''remit'' (JStr ''order.created'') (JNum 300000) \<and>
   queue \<lparr> queue = ''d:remit:order.created:11000'', queue_expiration = JNum 10000 \<rparr> \<noteq>
   queue \<lparr> queue = ''d:remit:order.created:12000'', queue_expiration = JNum 10000 \<rparr>"
proof -
  let ?later = "future_schedule_options(''schedule'' \<mapsto> JDate (Some 12000))"
  have five: "snd (Emitter_setupDemitQueue host_example emitter_example env_example
      five_minute_options time) =
      Inr (Some \<lparr> queue = ''d:remit:order.created:300000'', queue_expiration = JNum 300000 \<rparr>)"
    for time
    by (simp add: Emitter_setupDemitQueue_def no_delay_def malformed_delay_def expiration_of_def
        group_of_def queue_name_def five_minute_options_def get_prop_def js_isNaN_def js_lt_def
        Let_def env_example_def emitter_example_def show_int_eval)
  have future: "snd (Emitter_setupDemitQueue host_example emitter_example env_example
      future_schedule_options 1000) =
      Inr (Some \<lparr> queue = ''d:remit:order.created:11000'', queue_expiration = JNum 10000 \<rparr>)"
    by (simp add: Emitter_setupDemitQueue_def no_delay_def malformed_delay_def expiration_of_def
        group_of_def queue_name_def future_schedule_options_def get_prop_def js_isNaN_def
        js_lt_def js_sub_def unary_plus_def of_number_def Let_def example_defs show_int_eval)
  have later: "snd (Emitter_setupDemitQueue host_example emitter_example env_example
      ?later 2000) =
      Inr (Some \<lparr> queue = ''d:remit:order.created:12000'', queue_expiration = JNum 10000 \<rparr>)"
    by (simp add: Emitter_setupDemitQueue_def no_delay_def malformed_delay_def expiration_of_def
        group_of_def queue_name_def future_schedule_options_def get_prop_def js_isNaN_def
        js_lt_def js_sub_def unary_plus_def of_number_def Let_def example_defs show_int_eval)
  have ev: "get_prop future_schedule_options ''event'' = get_prop ?later ''event''"
    by (simp add: get_prop_def)
  have s1: "get_prop future_schedule_options ''schedule'' = JDate (Some 11000)"
    and s2: "get_prop ?later ''schedule'' = JDate (Some 12000)"
    by (simp_all add: future_schedule_options_def get_prop_def)
  have g: "group_of host_example five_minute_options = JNum 300000"
    and e5: "get_prop five_minute_options ''event'' = JStr ''order.created''"
    by (simp_all add: group_of_def five_minute_options_def get_prop_def emitter_example_def)
  from queue_name_by_group [OF five [of 1000] five [of 2000] refl, THEN conjunct1] g e5
  have a: "queue \<lparr> queue = ''d:remit:order.created:300000'', queue_expiration = JNum 300000 \<rparr> =
     queue_name host_example ''remit'' (JStr ''order.created'') (JNum 300000)"
    by (simp add: emitter_example_def)
  from queue_name_by_group [OF future later ev, THEN conjunct2, THEN conjunct2, THEN spec,
      THEN spec, THEN mp, of 11000 12000] s1 s2
  have b: "queue \<lparr> queue = ''d:remit:order.created:11000'', queue_expiration = JNum 10000 \<rparr> \<noteq>
   queue \<lparr> queue = ''d:remit:order.created:12000'', queue_expiration = JNum 10000 \<rparr>"
    by simp
  from five [of 1000] five [of 2000] future later a b show ?thesis by simp
qed

section \<open>Validation of the delay\<close>

text \<open>
  C2, as stated, does not hold. A delay of \<open>-5\<close> and a delay of NaN, each with the
  schedule \<^verbatim>\<open>null\<close>, are present, are no positive duration, and no schedule exists; the
  resolver returns \<^verbatim>\<open>false\<close> for both, without an error.
\<close>

theorem invalid_delay_sent_immediately:
  "Emitter_setupDemitQueue host_example emitter_example env_example
     [''event'' \<mapsto> JStr ''order.created'', ''delay'' \<mapsto> JNum (- 5), ''schedule'' \<mapsto> JNull] 1000
     = ([], Inr None) \<and>
   Emitter_setupDemitQueue host_example emitter_example env_example
     [''event'' \<mapsto> JStr ''order.created'', ''delay'' \<mapsto> JNaN, ''schedule'' \<mapsto> JNull] 1000
     = ([], Inr None)"
  by (simp add: Emitter_setupDemitQueue_def no_delay_def malformed_delay_def expiration_of_def
      get_prop_def js_isNaN_def js_lt_def Let_def)

text \<open>
  C2, amended. The resolver throws the validation error when the delay is falsy without
  converting to NaN (\<open>0\<close>, \<^verbatim>\<open>null\<close>, \<^verbatim>\<open>false\<close>, the empty string) and the schedule is
  falsy, and when the delay is falsy or converts to NaN and the schedule is truthy but
  is not a Date or is an invalid Date. When the delay converts to NaN (\<^verbatim>\<open>undefined\<close>,
  NaN, a plain object) and the schedule is falsy, and when the delay is a negative number
  and the schedule is falsy, it returns \<^verbatim>\<open>false\<close>: the message is sent at once.
\<close>

theorem delay_validation:
  assumes "get_prop opts ''delay'' = d" and "get_prop opts ''schedule'' = s"
  shows "(\<not> truthy d \<and> \<not> js_isNaN h d \<and> \<not> truthy s \<longrightarrow>
            Emitter_setupDemitQueue h this e opts time = ([], Inl invalid_delay_error)) \<and>
         ((\<not> truthy d \<or> js_isNaN h d) \<and> truthy s \<and> (\<not> instanceof_Date s \<or> s = JDate None) \<longrightarrow>
            Emitter_setupDemitQueue h this e opts time = ([], Inl invalid_delay_error)) \<and>
         (js_isNaN h d \<and> \<not> truthy s \<longrightarrow>
            Emitter_setupDemitQueue h this e opts time = ([], Inr None)) \<and>
         (\<forall>n. d = JNum n \<and> n < 0 \<and> \<not> truthy s \<longrightarrow>
            Emitter_setupDemitQueue h this e opts time = ([], Inr None))"
proof -
  have falsy: "Emitter_setupDemitQueue h this e opts time = ([], Inl invalid_delay_error)"
    if "\<not> truthy d" "\<not> js_isNaN h d" "\<not> truthy s"
    using that assms by (simp add: Emitter_setupDemitQueue_def no_delay_def malformed_delay_def)
  have bad_schedule: "Emitter_setupDemitQueue h this e opts time = ([], Inl invalid_delay_error)"
    if "\<not> truthy d \<or> js_isNaN h d" "truthy s" "\<not> instanceof_Date s \<or> s = JDate None"
    using that assms
    by (auto simp: Emitter_setupDemitQueue_def no_delay_def malformed_delay_def)
  have nan: "Emitter_setupDemitQueue h this e opts time = ([], Inr None)"
    if "js_isNaN h d" "\<not> truthy s"
    using that assms by (simp add: Emitter_setupDemitQueue_def no_delay_def)
  have negative: "Emitter_setupDemitQueue h this e opts time = ([], Inr None)"
    if "d = JNum n" "n < 0" "\<not> truthy s" for n
    using that assms
    by (simp add: Emitter_setupDemitQueue_def no_delay_def malformed_delay_def expiration_of_def
        js_isNaN_def js_lt_def Let_def)
  from falsy bad_schedule nan negative show ?thesis by blast
qed

theorem delay_validation_witness:
  "Emitter_setupDemitQueue host_example emitter_example env_example
     [''event'' \<mapsto> JStr ''order.created'', ''delay'' \<mapsto> JNum 0, ''schedule'' \<mapsto> JNull] 1000
     = ([], Inl invalid_delay_error)"
  using delay_validation [of "[''event'' \<mapsto> JStr ''order.created'', ''delay'' \<mapsto> JNum 0,
      ''schedule'' \<mapsto> JNull]" "JNum 0" JNull host_example emitter_example env_example 1000]
  by (simp add: get_prop_def js_isNaN_def)

section \<open>Delay and schedule in the normalised options\<close>

text \<open>
  C9, as stated, does not hold. An emitter whose stored options come from
  \<^verbatim>\<open>{event: 'order.created', delay: 1000}\<close> is given \<^verbatim>\<open>{schedule: new Date(5000)}\<close>,
  an object with no \<^verbatim>\<open>delay\<close> of its own: nothing is normalised, and the result carries
  the stored delay and the new schedule together.
\<close>

theorem schedule_over_stored_delay:
  "Emitter_generateOptions host_example
     \<lparr> exchange = ''remit'', app_name = ''svc'', this_options = Map.empty \<rparr>
     [''event'' \<mapsto> JStr ''order.created'', ''delay'' \<mapsto> JNum 1000] = Inr delayed_options \<and>
   Emitter_generateOptions host_example emitter_delayed [''schedule'' \<mapsto> JDate (Some 5000)]
     = Inr (delayed_options ++ [''schedule'' \<mapsto> JDate (Some 5000)]) \<and>
   get_prop (delayed_options ++ [''schedule'' \<mapsto> JDate (Some 5000)]) ''delay'' = JNum 1000 \<and>
   get_prop (delayed_options ++ [''schedule'' \<mapsto> JDate (Some 5000)]) ''schedule''
     = JDate (Some 5000) \<and>
   \<not> mutually_exclusive (delayed_options ++ [''schedule'' \<mapsto> JDate (Some 5000)])"
  by (simp add: Emitter_generateOptions_def parsedOpts_of_def delayed_options_def
      emitter_delayed_def get_prop_def mutually_exclusive_def)

text \<open>
  C9, amended. When the input object has a \<^verbatim>\<open>delay\<close> property of its own, the result
  of \<^verbatim>\<open>_generateOptions\<close> has at most one of \<^verbatim>\<open>delay\<close> and \<^verbatim>\<open>schedule\<close> set,
  whatever the stored options carried. When it has none, the result is the input merged
  over the stored options, unchanged.
\<close>

theorem own_delay_exclusive:
  "(opts ''delay'' \<noteq> None \<and> Emitter_generateOptions h this opts = Inr po \<longrightarrow>
      mutually_exclusive po) \<and>
   (opts ''delay'' = None \<longrightarrow>
      Emitter_generateOptions h this opts = Inr (this_options this ++ opts))"
  by (auto simp: Emitter_generateOptions_def parsedOpts_of_def mutually_exclusive_def
      get_prop_def split: if_splits sum.splits)

theorem own_delay_exclusive_witness:
  "mutually_exclusive
     (future_schedule_options ++ [''delay'' \<mapsto> JStr ''5m''] ++
        [''delay'' \<mapsto> JNum 300000, ''schedule'' \<mapsto> JNull])"
proof -
  have "Emitter_generateOptions host_example
      (emitter_example \<lparr> this_options := future_schedule_options \<rparr>) [''delay'' \<mapsto> JStr ''5m'']
      = Inr (future_schedule_options ++ [''delay'' \<mapsto> JStr ''5m''] ++
          [''delay'' \<mapsto> JNum 300000, ''schedule'' \<mapsto> JNull])"
    by (simp add: Emitter_generateOptions_def parsedOpts_of_def get_prop_def host_example_def
        ms_example_def)
  with own_delay_exclusive [of "[''delay'' \<mapsto> JStr ''5m'']" host_example
      "emitter_example \<lparr> this_options := future_schedule_options \<rparr>"
      "future_schedule_options ++ [''delay'' \<mapsto> JStr ''5m''] ++
          [''delay'' \<mapsto> JNum 300000, ''schedule'' \<mapsto> JNull]"]
  show ?thesis by simp
qed

section \<open>What the attempt reads from the options\<close>

lemma routed_append: "routed (a @ b) = routed a @ routed b"
  by (induction a rule: routed.induct) simp_all

lemma routed_setup: "routed (fst (Emitter_setupDemitQueue h this e opts time)) = []"
  by (simp add: Emitter_setupDemitQueue_def Let_def split: sum.splits option.splits)

lemma routed_route:
  "bm \<in> set (routed (fst (route h this e po msg body dq w))) \<Longrightarrow>
     fst bm = body \<and> m_priority (snd bm) = m_priority msg"
  by (auto simp: route_def Let_def split: option.splits if_splits)

lemma routed_send_from_serialise:
  assumes "bm \<in> set (routed (fst (send_from_serialise h this e po msg data)))"
  shows "(\<exists>sd. JSON_stringify data = Inr sd \<and> fst bm = body_of sd) \<and>
         m_priority (snd bm) = m_priority msg"
proof (cases "JSON_stringify data")
  case (Inl err)
  with assms show ?thesis by (simp add: send_from_serialise_def)
next
  case (Inr sd)
  obtain t1 r1 where s: "Emitter_setupDemitQueue h this e po (now e) = (t1, r1)"
    by (cases "Emitter_setupDemitQueue h this e po (now e)")
  have t1: "routed t1 = []" using routed_setup [of h this e po "now e"] s by simp
  show ?thesis
  proof (cases r1)
    case (Inl err)
    with assms Inr s t1 show ?thesis
      by (simp add: send_from_serialise_def Let_def routed_append split: option.splits)
  next
    case dq: (Inr demitQueue)
    show ?thesis
    proof (cases "send_acquire e")
      case (Inl err)
      with assms Inr s t1 dq show ?thesis
        by (simp add: send_from_serialise_def Let_def routed_append split: option.splits)
    next
      case w: (Inr worker)
      from assms Inr s t1 dq w
      have "bm \<in> set (routed (fst (route h this e po msg (body_of sd) demitQueue worker)))"
        by (simp add: send_from_serialise_def Let_def routed_append
            split: option.splits prod.splits)
      from routed_route [OF this] Inr show ?thesis by simp
    qed
  qed
qed

lemma setup_agree:
  assumes "get_prop po ''event'' = get_prop po' ''event''"
    and "get_prop po ''delay'' = get_prop po' ''delay''"
    and "get_prop po ''schedule'' = get_prop po' ''schedule''"
    and "exchange this = exchange this'"
  shows "Emitter_setupDemitQueue h this e po t = Emitter_setupDemitQueue h this' e po' t"
  unfolding Emitter_setupDemitQueue_def no_delay_def malformed_delay_def group_of_def
    expiration_of_def queueOpts_of_def assms
  by (rule refl)

lemma route_agree:
  assumes "get_prop po ''event'' = get_prop po' ''event''"
    and "get_prop po ''delay'' = get_prop po' ''delay''"
    and "get_prop po ''schedule'' = get_prop po' ''schedule''"
    and "exchange this = exchange this'"
  shows "route h this e po msg body dq w = route h this' e po' msg body dq w"
  unfolding route_def assms by (rule refl)

lemma send_from_serialise_agree:
  assumes "get_prop po ''event'' = get_prop po' ''event''"
    and "get_prop po ''delay'' = get_prop po' ''delay''"
    and "get_prop po ''schedule'' = get_prop po' ''schedule''"
    and "exchange this = exchange this'"
  shows "send_from_serialise h this e po msg data = send_from_serialise h this' e po' msg data"
  unfolding send_from_serialise_def setup_agree [OF assms] route_agree [OF assms] assms(1)
  by (rule refl)

lemma parsedOpts_of_keys:
  assumes "parsedOpts_of h opts = Inr p" and "k \<noteq> ''delay''" and "k \<noteq> ''schedule''"
  shows "p k = None"
  using assms by (auto simp: parsedOpts_of_def split: if_splits sum.splits)

lemma parsedOpts_of_priority:
  "parsedOpts_of h (opts(''priority'' := v)) = parsedOpts_of h opts"
  by (simp add: parsedOpts_of_def get_prop_def)

section \<open>A priority of zero\<close>

text \<open>
  C10. A resolved priority of exactly 0 is falsy, so \<^verbatim>\<open>_send\<close> neither validates nor
  assigns it: the whole attempt (trace and result, the envelope included) is the one of
  the same send with no priority anywhere, and no routed message carries a priority.
\<close>

theorem priority_zero_is_no_priority:
  "Emitter_send h this e data (opts(''priority'' \<mapsto> JNum 0)) =
     Emitter_send h (this \<lparr> this_options := (this_options this)(''priority'' := None) \<rparr>) e data
       (opts(''priority'' := None)) \<and>
   (\<forall>bm \<in> set (routed (fst (Emitter_send h this e data (opts(''priority'' \<mapsto> JNum 0))))).
      m_priority (snd bm) = None)"
proof (cases "parsedOpts_of h opts")
  case (Inl err)
  then show ?thesis
    by (simp add: Emitter_send_def Emitter_generateOptions_def parsedOpts_of_priority)
next
  case (Inr p)
  let ?this' = "this \<lparr> this_options := (this_options this)(''priority'' := None) \<rparr>"
  let ?po = "this_options this ++ opts(''priority'' \<mapsto> JNum 0) ++ p"
  let ?po' = "(this_options this)(''priority'' := None) ++ opts(''priority'' := None) ++ p"
  have pk: "p ''priority'' = None" "p ''event'' = None"
    using parsedOpts_of_keys [OF Inr] by simp_all
  have g: "Emitter_generateOptions h this (opts(''priority'' \<mapsto> JNum 0)) = Inr ?po"
    and g': "Emitter_generateOptions h ?this' (opts(''priority'' := None)) = Inr ?po'"
    using Inr by (simp_all add: Emitter_generateOptions_def parsedOpts_of_priority)
  have zero: "get_prop ?po ''priority'' = JNum 0" and none: "get_prop ?po' ''priority'' = JUndefined"
    using pk by (simp_all add: get_prop_def map_add_def)
  have same: "get_prop ?po k = get_prop ?po' k" if "k \<noteq> ''priority''" for k
    using that by (simp add: get_prop_def map_add_def split: option.splits)
  have nr: "\<not> priority_rejected h ?po" "\<not> priority_rejected h ?po'"
    using zero none by (simp_all add: priority_rejected_def)
  have env: "envelope this e ?po = initial_message this e"
    "envelope ?this' e ?po' = initial_message this e"
    using zero none by (simp_all add: envelope_def initial_message_def)
  have l: "Emitter_send h this e data (opts(''priority'' \<mapsto> JNum 0)) =
      send_from_serialise h this e ?po (initial_message this e) (default_null data)"
    using nr env by (simp add: send_unfold [OF g])
  have r: "Emitter_send h ?this' e data (opts(''priority'' := None)) =
      send_from_serialise h ?this' e ?po' (initial_message this e) (default_null data)"
    using nr env by (simp add: send_unfold [OF g'])
  have "send_from_serialise h this e ?po (initial_message this e) (default_null data) =
      send_from_serialise h ?this' e ?po' (initial_message this e) (default_null data)"
  proof (rule send_from_serialise_agree)
    show "get_prop ?po ''event'' = get_prop ?po' ''event''" by (rule same) simp
    show "get_prop ?po ''delay'' = get_prop ?po' ''delay''" by (rule same) simp
    show "get_prop ?po ''schedule'' = get_prop ?po' ''schedule''" by (rule same) simp
    show "exchange this = exchange ?this'" by simp
  qed
  with l r have eq: "Emitter_send h this e data (opts(''priority'' \<mapsto> JNum 0)) =
     Emitter_send h ?this' e data (opts(''priority'' := None))"
    by simp
  have "m_priority (snd bm) = None"
    if "bm \<in> set (routed (fst (Emitter_send h this e data (opts(''priority'' \<mapsto> JNum 0)))))"
    for bm
    using routed_send_from_serialise [of bm h this e ?po "initial_message this e" "default_null data"]
      that l by (simp add: initial_message_def)
  with eq show ?thesis by blast
qed

theorem priority_zero_is_no_priority_witness:
  "routed (fst (Emitter_send host_example emitter_example env_example (PJson ''{}'')
       [''priority'' \<mapsto> JNum 0])) =
     [(''{}'', initial_message emitter_example env_example)] \<and>
   Emitter_send host_example emitter_example env_example (PJson ''{}'') [''priority'' \<mapsto> JNum 0] =
     Emitter_send host_example emitter_example env_example (PJson ''{}'') Map.empty"
proof -
  have a: "emitter_example \<lparr> this_options := (this_options emitter_example)(''priority'' := None) \<rparr>
      = emitter_example"
    by (simp add: emitter_example_def)
  have r: "routed (fst (Emitter_send host_example emitter_example env_example (PJson ''{}'')
       Map.empty)) = [(''{}'', initial_message emitter_example env_example)]"
    by (simp add: Emitter_send_def Emitter_generateOptions_def parsedOpts_of_def get_prop_def
        send_from_serialise_def Emitter_setupDemitQueue_def no_delay_def js_isNaN_def
        route_def default_null_def body_of_def Let_def example_defs)
  from priority_zero_is_no_priority [of host_example emitter_example env_example "PJson ''{}''"
      Map.empty, THEN conjunct1] a
  have "Emitter_send host_example emitter_example env_example (PJson ''{}'') [''priority'' \<mapsto> JNum 0] =
     Emitter_send host_example emitter_example env_example (PJson ''{}'') Map.empty"
    by simp
  with r show ?thesis by simp
qed

section \<open>A payload that does not serialise\<close>

lemma serialise_undefined:
  assumes "JSON_stringify data = Inr None"
  shows "send_from_serialise h this e po msg data =
     (Warn # fst (send_from_serialise h this e po msg (PJson ''null'')),
      snd (send_from_serialise h this e po msg (PJson ''null'')))"
  using assms
  by (simp add: send_from_serialise_def body_of_def Let_def split: prod.splits sum.splits)

lemma send_completes:
  assumes "JSON_stringify data = Inr sd"
    and "Emitter_setupDemitQueue h this e po (now e) = (t1, Inr dq)"
    and "send_acquire e = Inr w" and "route_res e = None" and "sent_listener e = None"
  shows "\<exists>ev. snd (send_from_serialise h this e po msg data) = Inr ev \<and> ev_data ev = body_of sd"
  using assms
  by (simp add: send_from_serialise_def route_def Let_def split: prod.splits)

text \<open>
  C4, as stated, does not hold for the payload \<^verbatim>\<open>undefined\<close>, which the claim names:
  \<^verbatim>\<open>JSON.stringify(undefined)\<close> is \<^verbatim>\<open>undefined\<close>, but the default \<^verbatim>\<open>data = null\<close> has
  replaced the payload before it is serialised, so the body is \<^verbatim>\<open>'null'\<close> and no
  warning is logged.
\<close>

theorem undefined_payload_no_warning:
  "JSON_stringify PUndefined = Inr None \<and>
   Warn \<notin> set (fst (Emitter_send host_example emitter_example env_example PUndefined Map.empty)) \<and>
   routed (fst (Emitter_send host_example emitter_example env_example PUndefined Map.empty)) =
     [(''null'', initial_message emitter_example env_example)]"
  by (simp add: Emitter_send_def Emitter_generateOptions_def parsedOpts_of_def get_prop_def
      send_from_serialise_def Emitter_setupDemitQueue_def no_delay_def js_isNaN_def
      route_def default_null_def body_of_def Let_def example_defs)

text \<open>
  C4, amended. For a payload other than \<^verbatim>\<open>undefined\<close> on which \<^verbatim>\<open>JSON.stringify\<close>
  gives \<^verbatim>\<open>undefined\<close> (a function, a symbol), in a send whose options and priority are
  accepted: the warning is logged, and the rest of the attempt is the attempt that sends
  \<^verbatim>\<open>null\<close>, with the same result; every routed body is \<^verbatim>\<open>'null'\<close>; and when the
  resolver, the acquisition, the routing call and the listeners do not fail, the send
  returns its event with the data \<^verbatim>\<open>null\<close>. For the payload \<^verbatim>\<open>undefined\<close> the attempt
  is the attempt that sends \<^verbatim>\<open>null\<close>, without a warning.
\<close>

theorem unserialisable_payload_sent_as_null:
  assumes "data \<noteq> PUndefined" and "JSON_stringify data = Inr None"
    and "Emitter_generateOptions h this opts = Inr po" and "\<not> priority_rejected h po"
  shows "Emitter_send h this e data opts =
       (Warn # fst (Emitter_send h this e (PJson ''null'') opts),
        snd (Emitter_send h this e (PJson ''null'') opts)) \<and>
     (\<forall>bm \<in> set (routed (fst (Emitter_send h this e data opts))). fst bm = ''null'') \<and>
     (\<forall>t1 dq w. Emitter_setupDemitQueue h this e po (now e) = (t1, Inr dq) \<and>
        send_acquire e = Inr w \<and> route_res e = None \<and> sent_listener e = None \<longrightarrow>
        (\<exists>ev. snd (Emitter_send h this e data opts) = Inr ev \<and> ev_data ev = ''null'')) \<and>
     Emitter_send h this e PUndefined opts = Emitter_send h this e (PJson ''null'') opts"
proof -
  have d: "default_null data = data" using assms(1) by (simp add: default_null_def)
  have u: "Emitter_send h this e data opts =
      send_from_serialise h this e po (envelope this e po) data"
    using assms(4) d by (simp add: send_unfold [OF assms(3)])
  have n: "Emitter_send h this e (PJson ''null'') opts =
      send_from_serialise h this e po (envelope this e po) (PJson ''null'')"
    using assms(4) by (simp add: send_unfold [OF assms(3)] default_null_def)
  have first: "Emitter_send h this e data opts =
       (Warn # fst (Emitter_send h this e (PJson ''null'') opts),
        snd (Emitter_send h this e (PJson ''null'') opts))"
    unfolding u n by (rule serialise_undefined [OF assms(2)])
  have bodies: "fst bm = ''null''"
    if "bm \<in> set (routed (fst (Emitter_send h this e data opts)))" for bm
    using routed_send_from_serialise [of bm h this e po "envelope this e po" data] that u assms(2)
    by (auto simp: body_of_def)
  have completes: "\<exists>ev. snd (Emitter_send h this e data opts) = Inr ev \<and> ev_data ev = ''null''"
    if "Emitter_setupDemitQueue h this e po (now e) = (t1, Inr dq)" "send_acquire e = Inr w"
      "route_res e = None" "sent_listener e = None" for t1 dq w
    using send_completes [OF assms(2) that, of "envelope this e po"] u by (simp add: body_of_def)
  have undef: "Emitter_send h this e PUndefined opts = Emitter_send h this e (PJson ''null'') opts"
    by (simp add: Emitter_send_def default_null_def)
  from first bodies completes undef show ?thesis by blast
qed

theorem unserialisable_payload_sent_as_null_witness:
  "Emitter_send host_example emitter_example env_example PFunction Map.empty =
     (Warn # fst (Emitter_send host_example emitter_example env_example (PJson ''null'') Map.empty),
      snd (Emitter_send host_example emitter_example env_example (PJson ''null'') Map.empty)) \<and>
   (\<exists>ev. snd (Emitter_send host_example emitter_example env_example PFunction Map.empty) = Inr ev \<and>
      ev_data ev = ''null'')"
proof -
  have g: "Emitter_generateOptions host_example emitter_example Map.empty
      = Inr (this_options emitter_example)"
    by (simp add: Emitter_generateOptions_def parsedOpts_of_def)
  have p: "\<not> priority_rejected host_example (this_options emitter_example)"
    by (simp add: priority_rejected_def get_prop_def emitter_example_def)
  have s: "Emitter_setupDemitQueue host_example emitter_example env_example
      (this_options emitter_example) (now env_example) = ([], Inr None)"
    by (simp add: Emitter_setupDemitQueue_def no_delay_def get_prop_def js_isNaN_def
        emitter_example_def)
  have e: "send_acquire env_example = Inr 2 \<and> route_res env_example = None \<and>
      sent_listener env_example = None"
    by (simp add: env_example_def)
  have f: "PFunction \<noteq> PUndefined" and u: "JSON_stringify PFunction = Inr None"
    by simp_all
  note t = unserialisable_payload_sent_as_null [OF f u g p, of env_example]
  from t [THEN conjunct2, THEN conjunct2, THEN conjunct1, rule_format, of "[]" None 2] s e
  have "\<exists>ev. snd (Emitter_send host_example emitter_example env_example PFunction Map.empty)
      = Inr ev \<and> ev_data ev = ''null''"
    by blast
  with t [THEN conjunct1] show ?thesis by blast
qed

section \<open>The pool discipline\<close>

text \<open>
  The handle of \<^verbatim>\<open>_setupDemitQueue\<close> is always released or destroyed exactly once, and
  so is the handle of \<^verbatim>\<open>_send\<close> whenever the routing call fails or no listener of
  \<^verbatim>\<open>'sent'\<close> throws.
\<close>

lemma setup_trace_shape:
  "fst (Emitter_setupDemitQueue h this e opts time) = [] \<or>
   (\<exists>w q qo. fst (Emitter_setupDemitQueue h this e opts time) =
       [Acquire w, AssertQueue w q qo, Release w] \<and> assert_res e = None) \<or>
   (\<exists>w q qo. fst (Emitter_setupDemitQueue h this e opts time) =
       [Acquire w, AssertQueue w q qo, Destroy w] \<and> assert_res e \<noteq> None)"
  by (simp add: Emitter_setupDemitQueue_def Let_def split: sum.splits option.splits)

lemma setup_pool_discipline:
  "pool_discipline [] (fst (Emitter_setupDemitQueue h this e opts time) @ t) = pool_discipline [] t"
  using setup_trace_shape [of h this e opts time] by auto

lemma route_pool_discipline:
  "pool_discipline [] (Acquire w # fst (route h this e po msg body dq w)) =
     (route_res e \<noteq> None \<or> sent_listener e = None)"
  by (simp add: route_def Let_def split: option.splits)

lemma pool_discipline_pre:
  "pool_discipline held ((case sd of None \<Rightarrow> [Warn] | Some s \<Rightarrow> []) @ SpanStart n # t) =
     pool_discipline held t"
  by (simp split: option.splits)

lemma send_from_serialise_pool_discipline:
  assumes "route_res e \<noteq> None \<or> sent_listener e = None"
  shows "pool_discipline [] (fst (send_from_serialise h this e po msg data))"
proof (cases "JSON_stringify data")
  case (Inl err)
  then show ?thesis by (simp add: send_from_serialise_def)
next
  case (Inr sd)
  obtain t1 r1 where s: "Emitter_setupDemitQueue h this e po (now e) = (t1, r1)"
    by (cases "Emitter_setupDemitQueue h this e po (now e)")
  have t1: "pool_discipline [] (t1 @ t) = pool_discipline [] t" for t
    using setup_pool_discipline [of h this e po "now e" t] s by simp
  show ?thesis
  proof (cases r1)
    case (Inl err)
    with Inr s t1 [of "[]"] show ?thesis
      by (simp add: send_from_serialise_def Let_def pool_discipline_pre)
  next
    case dq: (Inr demitQueue)
    show ?thesis
    proof (cases "send_acquire e")
      case (Inl err)
      with Inr s dq t1 [of "[]"] show ?thesis
        by (simp add: send_from_serialise_def Let_def pool_discipline_pre)
    next
      case w: (Inr worker)
      with Inr s dq t1 assms
        route_pool_discipline [of worker h this e po msg "body_of sd" demitQueue]
      show ?thesis
        by (auto simp: send_from_serialise_def Let_def pool_discipline_pre split: prod.splits)
    qed
  qed
qed

lemma send_pool_discipline:
  assumes "route_res e \<noteq> None \<or> sent_listener e = None"
  shows "pool_discipline [] (fst (Emitter_send h this e data opts))"
proof (cases "Emitter_generateOptions h this opts")
  case (Inl err)
  then show ?thesis by (simp add: Emitter_send_def)
next
  case (Inr po)
  then show ?thesis
    using send_from_serialise_pool_discipline [OF assms]
    by (simp add: send_unfold [OF Inr])
qed

text \<open>
  C1 does not hold on the remaining path. \<^verbatim>\<open>release(worker)\<close> stands inside the
  \<^verbatim>\<open>try\<close> block of \<^verbatim>\<open>_send\<close>, followed there by the emission of \<^verbatim>\<open>'sent'\<close>; when
  a listener throws, the \<^verbatim>\<open>catch\<close> block destroys the handle that was already
  released. In the attempt below every broker operation succeeds and the handle 2 is
  acquired, released and then destroyed.
\<close>

theorem listener_failure_destroys_released_handle:
  "pool_actions (fst (Emitter_send host_example emitter_example env_listener_throws
       (PJson ''{}'') Map.empty)) = [Acquire 2, Release 2, Destroy 2] \<and>
   snd (Emitter_send host_example emitter_example env_listener_throws (PJson ''{}'') Map.empty)
     = Inl boom \<and>
   \<not> pool_discipline [] (fst (Emitter_send host_example emitter_example env_listener_throws
       (PJson ''{}'') Map.empty))"
  by (simp add: Emitter_send_def Emitter_generateOptions_def parsedOpts_of_def get_prop_def
      send_from_serialise_def Emitter_setupDemitQueue_def no_delay_def js_isNaN_def
      route_def default_null_def body_of_def pool_actions_def Let_def example_defs)

end
